theory Spec2Isabelle
  imports Complex_Main "HOL-Library.AList"
begin

section \<open>Text highlighting in the viewer integration (highlight-handler.js)\<close>

text \<open>
  A shallow embedding of \<^verbatim>\<open>extensions/amp-viewer-integration/0.1/highlight-handler.js\<close>:
  the parser of the \<^verbatim>\<open>highlight\<close> hash parameter (\<^verbatim>\<open>getHighlightParam\<close>) and the
  class \<^verbatim>\<open>HighlightHandler\<close>.

  Conventions.
  \<^item> A JavaScript string is a \<open>string\<close>, one \<open>char\<close> for each UTF-16 code unit, so that
    \<open>length\<close> is the \<^verbatim>\<open>.length\<close> of the source.
  \<^item> A JavaScript number is a \<open>real\<close>: layout coordinates are pixel counts, on which
    the additions and the halving of the source are exact.
  \<^item> A thrown exception is the \<open>Inl\<close> of a sum; \<^verbatim>\<open>null\<close> and \<^verbatim>\<open>undefined\<close> are \<open>None\<close>.
  \<^item> The services the file imports (query-string and JSON parsers, the text locator,
    viewer, viewport) are parameters: the parsers are arguments of \<open>getHighlightParam\<close>,
    the others are fields of the record \<open>env\<close>, a snapshot of the host at the time of a call.
  \<^item> A private member of the class loses the underscore that ends its name:
    \<^verbatim>\<open>initHighlight_\<close> is \<open>initHighlight\<close>.
  \<^item> Every call that leaves the class (a message to the viewer, a style write, a DOM
    operation, a registration) is appended to the \<open>trace\<close> of the state, in program order.
\<close>

subsection \<open>Values\<close>

type_synonym js_string = string

datatype json =
    JNull
  | JBool bool
  | JNum real
  | JStr js_string
  | JArr "json list"
  | JObj "(js_string \<times> json) list"

datatype js_error = SyntaxError | TypeError | NotFoundError

subsection \<open>Constants of the module\<close>

definition HIGHLIGHT_DISMISS :: js_string where
  "HIGHLIGHT_DISMISS = ''highlightDismiss''"

definition HIGHLIGHT_STATE :: js_string where
  "HIGHLIGHT_STATE = ''highlightState''"

text \<open>\<^verbatim>\<open>100 << 10\<close>\<close>

definition HIGHLIGHT_PARAM_LENGTH_LIMIT :: nat where
  "HIGHLIGHT_PARAM_LENGTH_LIMIT = push_bit 10 100"

definition NUM_SENTENCES_LIMIT :: nat where
  "NUM_SENTENCES_LIMIT = 15"

definition NUM_ALL_CHARS_LIMIT :: nat where
  "NUM_ALL_CHARS_LIMIT = 1500"

definition SCROLL_ANIMATION_HEIGHT_LIMIT :: real where
  "SCROLL_ANIMATION_HEIGHT_LIMIT = 1000"

text \<open>\<^verbatim>\<open>Number.MAX_VALUE\<close>, the largest finite double.\<close>

definition MAX_VALUE :: real where
  "MAX_VALUE = 2 ^ 1024 - 2 ^ 971"

subsection \<open>getHighlightParam\<close>

record HighlightInfoDef =
  sentences :: "json list"

text \<open>
  The property read \<^verbatim>\<open>highlight['s']\<close> on a parsed JSON value: it throws a TypeError on
  \<^verbatim>\<open>null\<close>, gives the member of an object (\<^verbatim>\<open>undefined\<close> when there is none), and is
  \<^verbatim>\<open>undefined\<close> on a boolean, a number, a string and an array, none of which has a
  property of that name. An object is the list of its members, a name at most once.
\<close>

fun get_s :: "json \<Rightarrow> js_error + json option" where
  "get_s JNull = Inl TypeError"
| "get_s (JObj members) = Inr (map_of members ''s'')"
| "get_s (JBool b) = Inr None"
| "get_s (JNum x) = Inr None"
| "get_s (JStr s) = Inr None"
| "get_s (JArr a) = Inr None"

text \<open>
  The \<^verbatim>\<open>for\<close> loop over \<^verbatim>\<open>sens\<close>, from index \<open>i\<close> on, with the running
  \<^verbatim>\<open>sum\<close> (here \<open>acc\<close>):
  \<open>False\<close> when the loop leaves through one of its \<^verbatim>\<open>return null\<close>, \<open>True\<close> when it
  runs to the end.
\<close>

fun sentences_loop :: "json list \<Rightarrow> nat \<Rightarrow> bool" where
  "sentences_loop [] acc = True"
| "sentences_loop (JStr sen # rest) acc =
     (if sen = [] then False
      else if acc + length sen > NUM_ALL_CHARS_LIMIT then False
      else sentences_loop rest (acc + length sen))"
| "sentences_loop (sen # rest) acc = False"

text \<open>
  \<open>parseQueryString\<close> and \<open>parseJson\<close> are the imported helpers; the first argument of the
  source, \<^verbatim>\<open>ampdoc\<close>, is used for \<^verbatim>\<open>ampdoc.win.location.hash\<close> only, which is the
  argument \<open>hash\<close> here. The source has no \<^verbatim>\<open>try\<close>: what \<open>parseJson\<close> or the property
  read throws leaves the function.
\<close>

definition getHighlightParam ::
  "(js_string \<Rightarrow> js_string \<rightharpoonup> js_string) \<Rightarrow> (js_string \<Rightarrow> js_error + json) \<Rightarrow>
   js_string \<Rightarrow> js_error + HighlightInfoDef option" where
  "getHighlightParam parseQueryString parseJson hash =
     (case parseQueryString hash ''highlight'' of
        None \<Rightarrow> Inr None
      | Some param \<Rightarrow>
          if param = [] \<or> length param > HIGHLIGHT_PARAM_LENGTH_LIMIT then Inr None
          else (case parseJson param of
                  Inl err \<Rightarrow> Inl err
                | Inr highlight \<Rightarrow>
                    (case get_s highlight of
                       Inl err \<Rightarrow> Inl err
                     | Inr (Some (JArr sens)) \<Rightarrow>
                         if length sens > NUM_SENTENCES_LIMIT then Inr None
                         else if sentences_loop sens 0 then Inr (Some \<lparr>sentences = sens\<rparr>)
                         else Inr None
                     | Inr _ \<Rightarrow> Inr None)))"

subsection \<open>The request invariants, in the words of the specification\<close>

text \<open>
  An entry is a sentence when it is a non-empty string, and has the characters of its
  string; the value read for \<^verbatim>\<open>s\<close> is an array or not. A request has at most 15
  entries, each a sentence, of at most 1500 characters in all.
\<close>

fun is_sentence :: "json \<Rightarrow> bool" where
  "is_sentence (JStr s) = (s \<noteq> [])"
| "is_sentence v = False"

fun num_chars :: "json \<Rightarrow> nat" where
  "num_chars (JStr s) = length s"
| "num_chars v = 0"

definition is_array :: "json option \<Rightarrow> bool" where
  "is_array sens = (case sens of Some (JArr a) \<Rightarrow> True | _ \<Rightarrow> False)"

subsection \<open>The document, the host and the handler\<close>

type_synonym element = nat

text \<open>The \<^verbatim>\<open>top\<close> and \<^verbatim>\<open>bottom\<close> of a layout rectangle.\<close>

record rect =
  rect_top :: real
  rect_bottom :: real

text \<open>
  The host at the time of a call. \<open>'r\<close> is the type of the text ranges that
  \<^verbatim>\<open>findSentences\<close> hands to \<^verbatim>\<open>markTextRangeList\<close>; the body and the window, which
  both take as arguments, are fixed. The last four fields are what
  \<^verbatim>\<open>viewer.getVisibilityState()\<close>, \<^verbatim>\<open>viewport.getLayoutRect(node)\<close>,
  \<^verbatim>\<open>viewport.getHeight()\<close> and \<^verbatim>\<open>viewport.getPaddingTop()\<close> return.
\<close>

record 'r env =
  findSentences :: "json list \<Rightarrow> 'r option"
  markTextRangeList :: "'r \<Rightarrow> element list option"
  getVisibilityState :: js_string
  getLayoutRect :: "element \<Rightarrow> rect"
  getHeight :: real
  getPaddingTop :: real

text \<open>
  A value of a message parameter, and a value of a style property: \<open>StylePx n\<close> is the
  string \<^verbatim>\<open>n + 'px'\<close>.
\<close>

datatype msg_value = MsgStr js_string | MsgNum real

datatype style_value = StyleStr js_string | StylePx int

datatype effect =
    SendMessage js_string "(js_string \<times> msg_value) list"
  | SetStyle element js_string style_value
  | ResetStyle element js_string
  | CreateElement js_string element
  | AppendChild element
  | RemoveChild element
  | SetScrollTop real
  | AnimateScrollIntoView element
  | OnVisibilityChanged
  | ListenOnce js_string
  | RegisterHandler js_string
  | Uncaught js_error

text \<open>
  The state: the field \<^verbatim>\<open>highlightedNodes_\<close> of the handler; the variable \<^verbatim>\<open>called\<close> of
  the closure given to \<^verbatim>\<open>onVisibilityChanged\<close> and whether that closure is registered;
  whether the one-time click listener is armed and whether the dismiss handler is
  registered; the markers whose \<^verbatim>\<open>animateScrollIntoView\<close> promise is not resolved yet;
  the inline style of every element, the children of the body, the next element
  \<^verbatim>\<open>createElement\<close> gives, the scroll offset of the viewport; and the trace of effects.
\<close>

record state =
  highlightedNodes :: "element list option"
  called :: bool
  visibilityHandler :: bool
  clickListener :: bool
  dismissHandler :: bool
  pending :: "element list"
  style :: "element \<Rightarrow> js_string \<rightharpoonup> style_value"
  body :: "element list"
  next_element :: element
  scrollTop :: real
  trace :: "effect list"

definition emit :: "effect \<Rightarrow> state \<Rightarrow> state" where
  "emit ef w = w\<lparr>trace := trace w @ [ef]\<rparr>"

subsection \<open>Operations of the document and the viewport\<close>

text \<open>The assignment \<^verbatim>\<open>n['style'][prop] = v\<close>.\<close>

definition setStyle :: "element \<Rightarrow> js_string \<Rightarrow> style_value \<Rightarrow> state \<Rightarrow> state" where
  "setStyle n prop v w =
     emit (SetStyle n prop v) (w\<lparr>style := (style w)(n := (style w n)(prop \<mapsto> v))\<rparr>)"

text \<open>
  Modelled from the spec: \<^verbatim>\<open>setStyles\<close> of \<^verbatim>\<open>src/style\<close> is not among the sources; it
  applies the named style properties to the element, here one after the other.
\<close>

definition setStyles :: "element \<Rightarrow> (js_string \<times> style_value) list \<Rightarrow> state \<Rightarrow> state" where
  "setStyles n props w = fold (\<lambda>(prop, v). setStyle n prop v) props w"

text \<open>
  Modelled from the spec: \<^verbatim>\<open>resetStyles\<close> of \<^verbatim>\<open>src/style\<close> is not among the sources; it
  resets the named style overrides of the element, which is style clearing.
\<close>

definition resetStyle :: "element \<Rightarrow> js_string \<Rightarrow> state \<Rightarrow> state" where
  "resetStyle n prop w =
     emit (ResetStyle n prop) (w\<lparr>style := (style w)(n := (style w n)(prop := None))\<rparr>)"

definition resetStyles :: "element \<Rightarrow> js_string list \<Rightarrow> state \<Rightarrow> state" where
  "resetStyles n props w = fold (resetStyle n) props w"

text \<open>\<^verbatim>\<open>document.createElement\<close>: a new element, and the state that has allocated it.\<close>

definition createElement :: "js_string \<Rightarrow> state \<Rightarrow> element \<times> state" where
  "createElement tag w =
     (next_element w, emit (CreateElement tag (next_element w)) (w\<lparr>next_element := Suc (next_element w)\<rparr>))"

text \<open>
  \<^verbatim>\<open>body.appendChild\<close> makes the element the last child (taking it from its old place
  when it is a child already); \<^verbatim>\<open>body.removeChild\<close> throws when the element is not a
  child, and the exception leaves the callback that called it.
\<close>

definition appendChild :: "element \<Rightarrow> state \<Rightarrow> state" where
  "appendChild el w = emit (AppendChild el) (w\<lparr>body := removeAll el (body w) @ [el]\<rparr>)"

definition removeChild :: "element \<Rightarrow> state \<Rightarrow> state" where
  "removeChild el w =
     (if el \<in> set (body w) then emit (RemoveChild el) (w\<lparr>body := removeAll el (body w)\<rparr>)
      else emit (Uncaught NotFoundError) w)"

definition setScrollTop :: "real \<Rightarrow> state \<Rightarrow> state" where
  "setScrollTop y w = emit (SetScrollTop y) (w\<lparr>scrollTop := y\<rparr>)"

subsection \<open>HighlightHandler\<close>

text \<open>
  \<^verbatim>\<open>sendHighlightState_\<close>: the parameters start as \<^verbatim>\<open>{'state': state}\<close> and take every key
  of \<^verbatim>\<open>opt_params\<close> in turn (none when it is omitted, which is \<open>[]\<close> here).
\<close>

definition sendHighlightState :: "js_string \<Rightarrow> (js_string \<times> msg_value) list \<Rightarrow> state \<Rightarrow> state" where
  "sendHighlightState st opt_params w =
     emit (SendMessage HIGHLIGHT_STATE
            (fold (\<lambda>(key, v). AList.update key v) opt_params [(''state'', MsgStr st)])) w"

definition findHighlightedNodes :: "'r env \<Rightarrow> HighlightInfoDef \<Rightarrow> state \<Rightarrow> state" where
  "findHighlightedNodes e highlightInfo w =
     (case findSentences e (sentences highlightInfo) of
        None \<Rightarrow> w
      | Some sens \<Rightarrow>
          (case markTextRangeList e sens of
             None \<Rightarrow> w
           | Some nodes \<Rightarrow>
               if length nodes = 0 then w else w\<lparr>highlightedNodes := Some nodes\<rparr>))"

text \<open>The loop of \<^verbatim>\<open>calcTopToCenterHighlightedNodes_\<close> over the nodes, on \<^verbatim>\<open>(minTop, maxBottom)\<close>.\<close>

fun scan_rects :: "(element \<Rightarrow> rect) \<Rightarrow> element list \<Rightarrow> real \<times> real \<Rightarrow> real \<times> real" where
  "scan_rects layoutRect [] (minTop, maxBottom) = (minTop, maxBottom)"
| "scan_rects layoutRect (n # nodes) (minTop, maxBottom) =
     scan_rects layoutRect nodes
       (min minTop (rect_top (layoutRect n)), max maxBottom (rect_bottom (layoutRect n)))"

definition calcTopToCenterHighlightedNodes :: "'r env \<Rightarrow> state \<Rightarrow> real" where
  "calcTopToCenterHighlightedNodes e w =
     (case highlightedNodes w of
        None \<Rightarrow> 0
      | Some nodes \<Rightarrow>
          (case scan_rects (getLayoutRect e) nodes (MAX_VALUE, 0) of
             (minTop, maxBottom) \<Rightarrow>
               if minTop \<ge> maxBottom then 0
               else
                 let height = getHeight e - getPaddingTop e in
                 if maxBottom - minTop > height then minTop
                 else
                   let pos = (maxBottom + minTop - height) / 2 in
                   if pos > 0 then pos else 0))"

text \<open>
  \<^verbatim>\<open>animateScrollToTop_\<close> up to the call of \<^verbatim>\<open>animateScrollIntoView\<close>, whose promise is
  then pending, and the function given to \<^verbatim>\<open>then\<close>, which runs when the promise resolves.
\<close>

definition animateScrollToTop :: "real \<Rightarrow> state \<Rightarrow> state" where
  "animateScrollToTop y w =
     (case createElement ''div'' w of
        (sentinel, w1) \<Rightarrow>
          let w2 = setStyles sentinel
                     [(''position'', StyleStr ''absolute''),
                      (''top'', StylePx \<lfloor>y\<rfloor>),
                      (''bottom'', StyleStr ''0''),
                      (''left'', StyleStr ''0''),
                      (''right'', StyleStr ''0''),
                      (''pointer-events'', StyleStr ''none'')] w1;
              w3 = appendChild sentinel w2;
              w4 = sendHighlightState ''auto_scroll'' [] w3
          in emit (AnimateScrollIntoView sentinel) (w4\<lparr>pending := pending w4 @ [sentinel]\<rparr>))"

definition animateScrollToTop_then :: "element \<Rightarrow> state \<Rightarrow> state" where
  "animateScrollToTop_then sentinel w = removeChild sentinel (sendHighlightState ''shown'' [] w)"

definition dismissHighlight :: "state \<Rightarrow> state" where
  "dismissHighlight w =
     (case highlightedNodes w of
        None \<Rightarrow> w
      | Some nodes \<Rightarrow> fold (\<lambda>n. resetStyles n [''backgroundColor'', ''color'']) nodes w)"

text \<open>The closure that \<^verbatim>\<open>initHighlight_\<close> gives to \<^verbatim>\<open>viewer.onVisibilityChanged\<close>.\<close>

definition onVisibilityChanged_callback :: "'r env \<Rightarrow> state \<Rightarrow> state" where
  "onVisibilityChanged_callback e w =
     (if called w \<or> getVisibilityState e \<noteq> ''visible'' then w
      else (animateScrollToTop (calcTopToCenterHighlightedNodes e w) w)\<lparr>called := True\<rparr>)"

text \<open>The body of the loop that styles the nodes.\<close>

definition highlight_node :: "element \<Rightarrow> state \<Rightarrow> state" where
  "highlight_node n w =
     setStyle n ''color'' (StyleStr ''#333'') (setStyle n ''backgroundColor'' (StyleStr ''#ff0'') w)"

definition initHighlight :: "'r env \<Rightarrow> HighlightInfoDef \<Rightarrow> state \<Rightarrow> state" where
  "initHighlight e highlightInfo w0 =
     (let w = findHighlightedNodes e highlightInfo w0 in
      case highlightedNodes w of
        None \<Rightarrow> sendHighlightState ''not_found'' [] w
      | Some nodes \<Rightarrow>
          let scroll = calcTopToCenterHighlightedNodes e w;
              w1 = sendHighlightState ''found'' [(''scroll'', MsgNum scroll)] w;
              w2 = fold highlight_node nodes w1;
              w3 = (if getVisibilityState e = ''visible'' then animateScrollToTop scroll w2
                    else
                      let w' = (if scroll > SCROLL_ANIMATION_HEIGHT_LIMIT
                                then setScrollTop (scroll - SCROLL_ANIMATION_HEIGHT_LIMIT) w2
                                else w2)
                      in emit OnVisibilityChanged (w'\<lparr>called := False, visibilityHandler := True\<rparr>))
          in emit (ListenOnce ''click'') (w3\<lparr>clickListener := True\<rparr>))"

text \<open>
  The constructor: a handler with no nodes and nothing registered, on the document
  as it is, then \<^verbatim>\<open>initHighlight_\<close>.
\<close>

definition new_HighlightHandler :: "'r env \<Rightarrow> HighlightInfoDef \<Rightarrow> state \<Rightarrow> state" where
  "new_HighlightHandler e highlightInfo doc =
     initHighlight e highlightInfo
       (doc\<lparr>highlightedNodes := None, called := False, visibilityHandler := False,
            clickListener := False, dismissHandler := False\<rparr>)"

definition setupMessaging :: "state \<Rightarrow> state" where
  "setupMessaging w = emit (RegisterHandler HIGHLIGHT_DISMISS) (w\<lparr>dismissHandler := True\<rparr>)"

subsection \<open>The callbacks, as the host runs them\<close>

text \<open>
  Modelled from the spec: \<^verbatim>\<open>viewer.onVisibilityChanged\<close>, the promise of
  \<^verbatim>\<open>viewport.animateScrollIntoView\<close>, \<^verbatim>\<open>listenOnce\<close> of \<^verbatim>\<open>src/event-helper\<close> and
  \<^verbatim>\<open>messaging.registerHandler\<close> are not among the sources. The host calls back into the
  handler on four occasions: the viewer reports a change of visibility (to the registered
  handler, which is never unregistered); a pending scroll animation completes, which
  happens once for a marker; the body is clicked (the one-time listener is unregistered
  by its first call); the viewer sends \<^verbatim>\<open>highlightDismiss\<close>. Each event comes with the
  host as it is at that time.
\<close>

datatype event = VisibilityChanged | AnimationFinished element | Click | HighlightDismiss

fun step :: "'r env \<Rightarrow> event \<Rightarrow> state \<Rightarrow> state" where
  "step e VisibilityChanged w =
     (if visibilityHandler w then onVisibilityChanged_callback e w else w)"
| "step e (AnimationFinished sentinel) w =
     (if sentinel \<in> set (pending w)
      then animateScrollToTop_then sentinel (w\<lparr>pending := removeAll sentinel (pending w)\<rparr>)
      else w)"
| "step e Click w =
     (if clickListener w then dismissHighlight (w\<lparr>clickListener := False\<rparr>) else w)"
| "step e HighlightDismiss w =
     (if dismissHandler w then dismissHighlight w else w)"

fun run :: "('r env \<times> event) list \<Rightarrow> state \<Rightarrow> state" where
  "run [] w = w"
| "run ((e, ev) # evs) w = run evs (step e ev w)"

subsection \<open>The offset rule and the effects, in the words of the specification\<close>

text \<open>
  The rule of the offset computation on a minimum top, a maximum bottom and a usable
  height: 0 for a degenerate region, the minimum top for a region higher than the usable
  height, and otherwise the centering midpoint, not below 0.
\<close>

definition centering_offset :: "real \<Rightarrow> real \<Rightarrow> real \<Rightarrow> real" where
  "centering_offset minTop maxBottom usableHeight =
     (if minTop \<ge> maxBottom then 0
      else if maxBottom - minTop > usableHeight then minTop
      else max 0 ((maxBottom + minTop - usableHeight) / 2))"

text \<open>The notification of a state, and the \<^verbatim>\<open>found\<close> notification with its \<^verbatim>\<open>scroll\<close>.\<close>

definition state_message :: "js_string \<Rightarrow> effect" where
  "state_message st = SendMessage ''highlightState'' [(''state'', MsgStr st)]"

definition found_message :: "real \<Rightarrow> effect" where
  "found_message scroll =
     SendMessage ''highlightState'' [(''state'', MsgStr ''found''), (''scroll'', MsgNum scroll)]"

fun is_found :: "effect \<Rightarrow> bool" where
  "is_found (SendMessage name params) = (map_of params ''state'' = Some (MsgStr ''found''))"
| "is_found ef = False"

text \<open>The highlight styling of the nodes: background colour, then foreground colour, node by node.\<close>

definition highlight_styling :: "element list \<Rightarrow> effect list" where
  "highlight_styling nodes =
     concat (map (\<lambda>n. [SetStyle n ''backgroundColor'' (StyleStr ''#ff0''),
                        SetStyle n ''color'' (StyleStr ''#333'')]) nodes)"

fun is_highlight_styling :: "effect \<Rightarrow> bool" where
  "is_highlight_styling (SetStyle n prop v) = (prop = ''backgroundColor'' \<or> prop = ''color'')"
| "is_highlight_styling ef = False"

fun is_setScrollTop :: "effect \<Rightarrow> bool" where
  "is_setScrollTop (SetScrollTop y) = True"
| "is_setScrollTop ef = False"

fun is_animateScrollIntoView :: "effect \<Rightarrow> bool" where
  "is_animateScrollIntoView (AnimateScrollIntoView el) = True"
| "is_animateScrollIntoView ef = False"

text \<open>
  The scroll-animation sequence up to the request of the animation: a marker is created,
  positioned at the offset, spanning to the bottom edge at full width and taking no
  pointer events; it is put into the body; \<^verbatim>\<open>auto_scroll\<close> is sent; the animated scroll
  to the marker is requested. And its completion: \<^verbatim>\<open>shown\<close> is sent, the marker removed.
\<close>

definition scroll_animation_start :: "real \<Rightarrow> element \<Rightarrow> effect list" where
  "scroll_animation_start y marker =
     [CreateElement ''div'' marker,
      SetStyle marker ''position'' (StyleStr ''absolute''),
      SetStyle marker ''top'' (StylePx \<lfloor>y\<rfloor>),
      SetStyle marker ''bottom'' (StyleStr ''0''),
      SetStyle marker ''left'' (StyleStr ''0''),
      SetStyle marker ''right'' (StyleStr ''0''),
      SetStyle marker ''pointer-events'' (StyleStr ''none''),
      AppendChild marker,
      state_message ''auto_scroll'',
      AnimateScrollIntoView marker]"

definition scroll_animation_completion :: "element \<Rightarrow> effect list" where
  "scroll_animation_completion marker = [state_message ''shown'', RemoveChild marker]"

subsection \<open>A host and a document for concrete evaluation\<close>

text \<open>
  What the two parsers return on the hashes evaluated below: the query-string parser on
  a hash of the form \<^verbatim>\<open>#highlight=...\<close> with no escapes, the JSON parser on five JSON
  texts; every other text stands for one that is not JSON, and of these only \<^verbatim>\<open>{\<close>
  and \<^verbatim>\<open>Hello world\<close> are used.
\<close>

definition example_parseQueryString :: "js_string \<Rightarrow> js_string \<rightharpoonup> js_string" where
  "example_parseQueryString hash =
     (if take 11 hash = ''#highlight='' then [''highlight'' \<mapsto> drop 11 hash] else Map.empty)"

definition example_parseJson :: "js_string \<Rightarrow> js_error + json" where
  "example_parseJson text =
     (if text = ''null'' then Inr JNull
      else if text = ''{\"s\":[]}'' then Inr (JObj [(''s'', JArr [])])
      else if text = ''{\"s\":[\"Hello world\"]}'' then Inr (JObj [(''s'', JArr [JStr ''Hello world''])])
      else if text = ''{\"s\":1}'' then Inr (JObj [(''s'', JNum 1)])
      else if text = ''7'' then Inr (JNum 7)
      else Inl SyntaxError)"

text \<open>
  A host in which the locator finds \<^verbatim>\<open>Hello world\<close> in the elements \<open>nodes\<close> (one range,
  the number of the sentence) and nothing else, every node has the layout rectangle
  from \<open>t\<close> to \<open>b\<close>, and the viewport has height 800 and no padding.
\<close>

definition example_env :: "js_string \<Rightarrow> element list \<Rightarrow> real \<Rightarrow> real \<Rightarrow> nat list env" where
  "example_env visibility nodes t b =
     \<lparr>findSentences = (\<lambda>sens. if sens = [JStr ''Hello world''] then Some [0] else None),
      markTextRangeList = (\<lambda>ranges. Some nodes),
      getVisibilityState = visibility,
      getLayoutRect = (\<lambda>n. \<lparr>rect_top = t, rect_bottom = b\<rparr>),
      getHeight = 800,
      getPaddingTop = 0\<rparr>"

text \<open>A document with no inline styles, an empty body, and the elements 0 to 4 in use.\<close>

definition example_doc :: state where
  "example_doc =
     \<lparr>highlightedNodes = None, called = False, visibilityHandler = False,
      clickListener = False, dismissHandler = False, pending = [],
      style = (\<lambda>n. Map.empty), body = [], next_element = 5, scrollTop = 0, trace = []\<rparr>"

section \<open>The request parser\<close>

lemma HIGHLIGHT_PARAM_LENGTH_LIMIT_value: "HIGHLIGHT_PARAM_LENGTH_LIMIT = 102400"
  by (simp add: HIGHLIGHT_PARAM_LENGTH_LIMIT_def)

text \<open>
  The loop leaves early, on the running sum; it runs to its end exactly when every
  entry is a sentence and the sum over all entries stays within the limit.
\<close>

lemma sentences_loop_iff:
  "acc \<le> 1500 \<Longrightarrow>
   sentences_loop a acc \<longleftrightarrow>
     list_all is_sentence a \<and> acc + sum_list (map num_chars a) \<le> 1500"
  by (induction a acc rule: sentences_loop.induct) (auto simp: NUM_ALL_CHARS_LIMIT_def)

lemma getHighlightParam_parsed:
  assumes "pq hash ''highlight'' = Some p" "p \<noteq> []" "length p \<le> 102400"
    and "pj p = Inr v" "get_s v = Inr sens"
  shows "getHighlightParam pq pj hash =
           (case sens of
              Some (JArr a) \<Rightarrow>
                if length a \<le> 15 \<and> list_all is_sentence a \<and> sum_list (map num_chars a) \<le> 1500
                then Inr (Some \<lparr>sentences = a\<rparr>) else Inr None
            | _ \<Rightarrow> Inr None)"
  using assms
  by (simp add: getHighlightParam_def HIGHLIGHT_PARAM_LENGTH_LIMIT_value NUM_SENTENCES_LIMIT_def
      sentences_loop_iff split: option.splits json.splits)

text \<open>
  The validation rules, where the code keeps them. \<open>getHighlightParam\<close> returns
  \<^verbatim>\<open>null\<close> when the \<^verbatim>\<open>highlight\<close> parameter is absent (or empty), and when it is longer
  than 102400 characters, whatever it holds and whatever the JSON parser would do with
  it. When the parameter is within the limit and parses to a value on which \<^verbatim>\<open>s\<close> can
  be read, the result is \<^verbatim>\<open>null\<close> if \<^verbatim>\<open>s\<close> is not an array, if the array has more than
  15 entries, if an entry is not a string or is the empty string, or if the entries have
  more than 1500 characters in all; otherwise it is the request with exactly the entries
  of the array, in order.
\<close>

lemma getHighlightParam_validation:
  "(pq hash ''highlight'' = None \<longrightarrow> getHighlightParam pq pj hash = Inr None) \<and>
   (pq hash ''highlight'' = Some p \<and> (p = [] \<or> 102400 < length p) \<longrightarrow>
      getHighlightParam pq pj hash = Inr None) \<and>
   (pq hash ''highlight'' = Some p \<and> p \<noteq> [] \<and> length p \<le> 102400 \<and>
    pj p = Inr v \<and> get_s v = Inr sens \<longrightarrow>
      (\<not> is_array sens \<longrightarrow> getHighlightParam pq pj hash = Inr None) \<and>
      (sens = Some (JArr a) \<longrightarrow>
         (if 15 < length a \<or> \<not> list_all is_sentence a \<or> 1500 < sum_list (map num_chars a)
          then getHighlightParam pq pj hash = Inr None
          else getHighlightParam pq pj hash = Inr (Some \<lparr>sentences = a\<rparr>))))"
proof (intro conjI impI)
  assume "pq hash ''highlight'' = None"
  then show "getHighlightParam pq pj hash = Inr None"
    by (simp add: getHighlightParam_def)
next
  assume "pq hash ''highlight'' = Some p \<and> (p = [] \<or> 102400 < length p)"
  then show "getHighlightParam pq pj hash = Inr None"
    by (auto simp: getHighlightParam_def HIGHLIGHT_PARAM_LENGTH_LIMIT_value)
next
  assume h: "pq hash ''highlight'' = Some p \<and> p \<noteq> [] \<and> length p \<le> 102400 \<and>
    pj p = Inr v \<and> get_s v = Inr sens"
  assume "\<not> is_array sens"
  with h show "getHighlightParam pq pj hash = Inr None"
    using getHighlightParam_parsed [of pq hash p pj v sens]
    by (auto simp: is_array_def split: option.splits json.splits)
next
  assume h: "pq hash ''highlight'' = Some p \<and> p \<noteq> [] \<and> length p \<le> 102400 \<and>
    pj p = Inr v \<and> get_s v = Inr sens"
  assume "sens = Some (JArr a)"
  with h show "if 15 < length a \<or> \<not> list_all is_sentence a \<or> 1500 < sum_list (map num_chars a)
          then getHighlightParam pq pj hash = Inr None
          else getHighlightParam pq pj hash = Inr (Some \<lparr>sentences = a\<rparr>)"
    using getHighlightParam_parsed [of pq hash p pj v sens]
    by (auto simp: not_le not_less)
qed

text \<open>
  The rules at four hashes: a request of one sentence, an \<^verbatim>\<open>s\<close> that is a number, a
  parameter of 102401 characters, and a hash without the parameter.
\<close>

lemma getHighlightParam_validation_examples:
  "getHighlightParam example_parseQueryString example_parseJson ''#highlight={\"s\":[\"Hello world\"]}''
     = Inr (Some \<lparr>sentences = [JStr ''Hello world'']\<rparr>) \<and>
   getHighlightParam example_parseQueryString example_parseJson ''#highlight={\"s\":1}'' = Inr None \<and>
   getHighlightParam example_parseQueryString example_parseJson
     (''#highlight='' @ replicate 102401 CHR ''a'') = Inr None \<and>
   getHighlightParam example_parseQueryString example_parseJson ''#other=1'' = Inr None"
  using getHighlightParam_validation [of example_parseQueryString
      "''#highlight={\"s\":[\"Hello world\"]}''" example_parseJson
      "''{\"s\":[\"Hello world\"]}''" "JObj [(''s'', JArr [JStr ''Hello world''])]"
      "Some (JArr [JStr ''Hello world''])" "[JStr ''Hello world'']"]
    getHighlightParam_validation [of example_parseQueryString
      "''#highlight={\"s\":1}''" example_parseJson
      "''{\"s\":1}''" "JObj [(''s'', JNum 1)]" "Some (JNum 1)"]
    getHighlightParam_validation [of example_parseQueryString
      "''#highlight='' @ replicate 102401 CHR ''a''" example_parseJson
      "replicate 102401 CHR ''a''"]
    getHighlightParam_validation [of example_parseQueryString "''#other=1''" example_parseJson]
  by (simp add: example_parseQueryString_def example_parseJson_def is_array_def)

text \<open>
  What the code does where the parameter does not parse: it has no handler, so the error
  of the JSON parser leaves the function, and so does the TypeError of reading \<^verbatim>\<open>s\<close>
  from \<^verbatim>\<open>null\<close>. Every other invalid parameter is answered with \<^verbatim>\<open>null\<close>, also a parsed
  value that is not an object, such as a number.
\<close>

lemma getHighlightParam_unguarded:
  "pq hash ''highlight'' = Some p \<and> p \<noteq> [] \<and> length p \<le> 102400 \<longrightarrow>
     (pj p = Inl err \<longrightarrow> getHighlightParam pq pj hash = Inl err) \<and>
     (pj p = Inr JNull \<longrightarrow> getHighlightParam pq pj hash = Inl TypeError) \<and>
     (pj p = Inr v \<and> get_s v = Inr sens \<and> \<not> is_array sens \<longrightarrow>
        getHighlightParam pq pj hash = Inr None)"
  by (auto simp: getHighlightParam_def HIGHLIGHT_PARAM_LENGTH_LIMIT_value is_array_def
      split: option.splits json.splits)

text \<open>
  Claim C1 says that for every hash string \<open>getHighlightParam\<close> returns \<^verbatim>\<open>null\<close> when
  the \<^verbatim>\<open>highlight\<close> parameter is absent, too long, or has no \<^verbatim>\<open>s\<close> that is an array of
  at most 15 non-empty strings of at most 1500 characters in all, and the request
  otherwise. The code does not keep this at the hash \<^verbatim>\<open>#highlight=Hello world\<close>: the
  parameter is present and short and has no such \<^verbatim>\<open>s\<close>, and the result is neither
  \<^verbatim>\<open>null\<close> nor a request, but the error of the JSON parser.
\<close>

theorem getHighlightParam_throws_on_non_json:
  "getHighlightParam example_parseQueryString example_parseJson ''#highlight=Hello world''
     = Inl SyntaxError"
  by (simp add: getHighlightParam_def example_parseQueryString_def example_parseJson_def
      HIGHLIGHT_PARAM_LENGTH_LIMIT_value)

text \<open>
  Claim C5 says that a \<^verbatim>\<open>highlight\<close> parameter that is present and within the size limit
  but is not parseable (invalid JSON, or data on which \<^verbatim>\<open>s\<close> cannot be read) gives
  \<^verbatim>\<open>null\<close> and no error. The code does not keep this: at the hash \<^verbatim>\<open>#highlight={\<close>,
  whose parameter is not JSON, it raises the error of the parser, and at the hash
  \<^verbatim>\<open>#highlight=null\<close>, whose parameter is the JSON value \<^verbatim>\<open>null\<close>, it raises a
  TypeError; at \<^verbatim>\<open>#highlight=7\<close>, as invalid a request, it returns \<^verbatim>\<open>null\<close>.
\<close>

theorem getHighlightParam_throws_on_unparseable:
  "getHighlightParam example_parseQueryString example_parseJson ''#highlight={'' = Inl SyntaxError \<and>
   getHighlightParam example_parseQueryString example_parseJson ''#highlight=null'' = Inl TypeError \<and>
   getHighlightParam example_parseQueryString example_parseJson ''#highlight=7'' = Inr None"
  by (simp add: getHighlightParam_def example_parseQueryString_def example_parseJson_def
      HIGHLIGHT_PARAM_LENGTH_LIMIT_value)

text \<open>
  Claim C10. When the \<^verbatim>\<open>highlight\<close> parameter is present, within the size limit, and
  parses to a value whose \<^verbatim>\<open>s\<close> is the empty array, \<open>getHighlightParam\<close> returns a
  request with no sentence, not \<^verbatim>\<open>null\<close>: the empty array passes every check.
\<close>

theorem getHighlightParam_empty_array:
  "pq hash ''highlight'' = Some p \<Longrightarrow> p \<noteq> [] \<Longrightarrow> length p \<le> 102400 \<Longrightarrow>
   pj p = Inr v \<Longrightarrow> get_s v = Inr (Some (JArr [])) \<Longrightarrow>
   getHighlightParam pq pj hash = Inr (Some \<lparr>sentences = []\<rparr>)"
  by (simp add: getHighlightParam_def HIGHLIGHT_PARAM_LENGTH_LIMIT_value)

theorem getHighlightParam_empty_array_witness:
  "getHighlightParam example_parseQueryString example_parseJson ''#highlight={\"s\":[]}''
     = Inr (Some \<lparr>sentences = []\<rparr>)"
  using getHighlightParam_empty_array [of example_parseQueryString "''#highlight={\"s\":[]}''"
      "''{\"s\":[]}''" example_parseJson "JObj [(''s'', JArr [])]"]
  by (simp add: example_parseQueryString_def example_parseJson_def)

section \<open>The offset computation\<close>

lemma scan_rects_fold:
  "scan_rects lr nodes (a, b) =
     (fold min (map (rect_top \<circ> lr) nodes) a, fold max (map (rect_bottom \<circ> lr) nodes) b)"
  by (induction nodes arbitrary: a b) (simp_all add: min.commute max.commute)

text \<open>
  The loop computes a minimum and a maximum, each over the nodes and its start value:
  \<^verbatim>\<open>Number.MAX_VALUE\<close> for the tops, 0 for the bottoms.
\<close>

lemma scan_rects_Min_Max:
  "scan_rects lr nodes (a, b) =
     (Min (insert a ((rect_top \<circ> lr) ` set nodes)), Max (insert b ((rect_bottom \<circ> lr) ` set nodes)))"
proof -
  have "Min (set (a # map (rect_top \<circ> lr) nodes)) = fold min (map (rect_top \<circ> lr) nodes) a"
    by (rule Min.set_eq_fold)
  moreover have "Max (set (b # map (rect_bottom \<circ> lr) nodes)) = fold max (map (rect_bottom \<circ> lr) nodes) b"
    by (rule Max.set_eq_fold)
  ultimately show ?thesis
    by (simp add: scan_rects_fold)
qed

text \<open>
  With a bottom that is not negative, and tops that are numbers, the start values do
  not show in the result.
\<close>

lemma Min_Max_plain:
  assumes "list_ex (\<lambda>n. 0 \<le> rect_bottom (lr n)) nodes"
    and "list_all (\<lambda>n. rect_top (lr n) \<le> M) nodes"
  shows "Min (insert M ((rect_top \<circ> lr) ` set nodes)) = Min ((rect_top \<circ> lr) ` set nodes)"
    and "Max (insert 0 ((rect_bottom \<circ> lr) ` set nodes)) = Max ((rect_bottom \<circ> lr) ` set nodes)"
proof -
  let ?T = "(rect_top \<circ> lr) ` set nodes" and ?B = "(rect_bottom \<circ> lr) ` set nodes"
  obtain n where n: "n \<in> set nodes" "0 \<le> rect_bottom (lr n)"
    using assms(1) by (auto simp: list_ex_iff)
  have fin: "finite ?T" "finite ?B"
    by simp_all
  have ne: "?T \<noteq> {}" "?B \<noteq> {}"
    using n(1) by auto
  have "rect_top (lr n) \<in> ?T" "rect_top (lr n) \<le> M"
    using assms(2) n(1) by (auto simp: list_all_iff)
  then have le: "Min ?T \<le> M"
    using fin(1) Min_le order_trans by blast
  have "rect_bottom (lr n) \<in> ?B"
    using n(1) by auto
  then have ge: "0 \<le> Max ?B"
    using fin(2) n(2) Max_ge order_trans by blast
  have "Min (insert M ?T) = min M (Min ?T)"
    using fin(1) ne(1) by (rule Min_insert)
  also have "\<dots> = Min ?T"
    using le by (rule min_absorb2)
  finally show "Min (insert M ?T) = Min ?T" .
  have "Max (insert 0 ?B) = max 0 (Max ?B)"
    using fin(2) ne(2) by (rule Max_insert)
  also have "\<dots> = Max ?B"
    using ge by (rule max_absorb2)
  finally show "Max (insert 0 ?B) = Max ?B" .
qed

text \<open>
  Claim C2, as the code has it. With no node the offset is 0. With nodes, it is the rule
  of the specification (0 when the minimum top is at least the maximum bottom, the
  minimum top when the span exceeds the usable height, else the midpoint
  \<open>(maxBottom + minTop - usableHeight) / 2\<close>, not below 0) on the least of the tops and
  \<^verbatim>\<open>Number.MAX_VALUE\<close> and on the greatest of the bottoms and 0: the maximum bottom is
  never taken below 0. When some node has a bottom of 0 or more (and no top is above
  \<^verbatim>\<open>Number.MAX_VALUE\<close>, as for every finite number), this is the rule on the minimum top
  and the maximum bottom of the rectangles. For one node from 2000 to 2020 in a viewport
  of height 800 and no padding the offset is 1610.
\<close>

theorem calcTopToCenterHighlightedNodes_rule:
  "(highlightedNodes w = None \<or> highlightedNodes w = Some [] \<longrightarrow>
      calcTopToCenterHighlightedNodes e w = 0) \<and>
   (highlightedNodes w = Some nodes \<longrightarrow>
      calcTopToCenterHighlightedNodes e w =
        centering_offset
          (Min (insert MAX_VALUE ((rect_top \<circ> getLayoutRect e) ` set nodes)))
          (Max (insert 0 ((rect_bottom \<circ> getLayoutRect e) ` set nodes)))
          (getHeight e - getPaddingTop e)) \<and>
   (highlightedNodes w = Some nodes \<and>
    list_ex (\<lambda>n. 0 \<le> rect_bottom (getLayoutRect e n)) nodes \<and>
    list_all (\<lambda>n. rect_top (getLayoutRect e n) \<le> MAX_VALUE) nodes \<longrightarrow>
      calcTopToCenterHighlightedNodes e w =
        centering_offset
          (Min ((rect_top \<circ> getLayoutRect e) ` set nodes))
          (Max ((rect_bottom \<circ> getLayoutRect e) ` set nodes))
          (getHeight e - getPaddingTop e)) \<and>
   (highlightedNodes w = Some [n] \<and> getLayoutRect e n = \<lparr>rect_top = 2000, rect_bottom = 2020\<rparr> \<and>
    getHeight e = 800 \<and> getPaddingTop e = 0 \<longrightarrow>
      calcTopToCenterHighlightedNodes e w = 1610)"
proof (intro conjI impI)
  assume "highlightedNodes w = None \<or> highlightedNodes w = Some []"
  then show "calcTopToCenterHighlightedNodes e w = 0"
    by (auto simp: calcTopToCenterHighlightedNodes_def MAX_VALUE_def)
next
  assume "highlightedNodes w = Some nodes"
  then show "calcTopToCenterHighlightedNodes e w =
        centering_offset
          (Min (insert MAX_VALUE ((rect_top \<circ> getLayoutRect e) ` set nodes)))
          (Max (insert 0 ((rect_bottom \<circ> getLayoutRect e) ` set nodes)))
          (getHeight e - getPaddingTop e)"
    by (simp add: calcTopToCenterHighlightedNodes_def scan_rects_Min_Max centering_offset_def
        Let_def max_def)
next
  assume h: "highlightedNodes w = Some nodes \<and>
    list_ex (\<lambda>n. 0 \<le> rect_bottom (getLayoutRect e n)) nodes \<and>
    list_all (\<lambda>n. rect_top (getLayoutRect e n) \<le> MAX_VALUE) nodes"
  then have "calcTopToCenterHighlightedNodes e w =
        centering_offset
          (Min (insert MAX_VALUE ((rect_top \<circ> getLayoutRect e) ` set nodes)))
          (Max (insert 0 ((rect_bottom \<circ> getLayoutRect e) ` set nodes)))
          (getHeight e - getPaddingTop e)"
    by (simp add: calcTopToCenterHighlightedNodes_def scan_rects_Min_Max centering_offset_def
        Let_def max_def)
  then show "calcTopToCenterHighlightedNodes e w =
        centering_offset
          (Min ((rect_top \<circ> getLayoutRect e) ` set nodes))
          (Max ((rect_bottom \<circ> getLayoutRect e) ` set nodes))
          (getHeight e - getPaddingTop e)"
    using h Min_Max_plain [of "getLayoutRect e" nodes MAX_VALUE] by simp
next
  assume "highlightedNodes w = Some [n] \<and> getLayoutRect e n = \<lparr>rect_top = 2000, rect_bottom = 2020\<rparr> \<and>
    getHeight e = 800 \<and> getPaddingTop e = 0"
  then show "calcTopToCenterHighlightedNodes e w = 1610"
    by (simp add: calcTopToCenterHighlightedNodes_def MAX_VALUE_def)
qed

text \<open>One node from 2000 to 2020, and one node from -850 to -100.\<close>

theorem calcTopToCenterHighlightedNodes_rule_witness:
  "calcTopToCenterHighlightedNodes (example_env ''visible'' [0] 2000 2020)
     (example_doc\<lparr>highlightedNodes := Some [0]\<rparr>) = 1610 \<and>
   calcTopToCenterHighlightedNodes (example_env ''visible'' [0] 2000 2020)
     (example_doc\<lparr>highlightedNodes := Some [0]\<rparr>) = centering_offset 2000 2020 800 \<and>
   calcTopToCenterHighlightedNodes (example_env ''visible'' [0] (- 850) (- 100))
     (example_doc\<lparr>highlightedNodes := Some [0]\<rparr>) = centering_offset (- 850) 0 800"
  using calcTopToCenterHighlightedNodes_rule [of "example_doc\<lparr>highlightedNodes := Some [0]\<rparr>"
      "example_env ''visible'' [0] 2000 2020" "[0]" 0]
    calcTopToCenterHighlightedNodes_rule [of "example_doc\<lparr>highlightedNodes := Some [0]\<rparr>"
      "example_env ''visible'' [0] (- 850) (- 100)" "[0]" 0]
  by (simp add: example_env_def example_doc_def MAX_VALUE_def)

text \<open>
  C2 as it is written takes the maximum bottom of the rectangles. For one node from
  -850 to -100 (above the top of the document) in a viewport of usable height 800, the
  minimum top is -850 and the maximum bottom -100: the span of 750 fits, and the rule
  gives the midpoint -875 raised to 0. The code has 0 for the maximum bottom, a span of
  850 that does not fit, and returns the minimum top, -850.
\<close>

theorem calcTopToCenterHighlightedNodes_negative_bottom_counterexample:
  "calcTopToCenterHighlightedNodes (example_env ''visible'' [0] (- 850) (- 100))
     (example_doc\<lparr>highlightedNodes := Some [0]\<rparr>) = - 850 \<and>
   centering_offset (Min {- 850}) (Max {- 100}) (800 - 0) = 0"
  by (simp add: calcTopToCenterHighlightedNodes_def example_env_def example_doc_def
      centering_offset_def MAX_VALUE_def)

section \<open>The states the operations produce\<close>

lemma fold_highlight_node:
  "fold highlight_node nodes w =
     w\<lparr>style := fold (\<lambda>n s. s(n := (s n)(''backgroundColor'' \<mapsto> StyleStr ''#ff0'',
                                            ''color'' \<mapsto> StyleStr ''#333''))) nodes (style w),
       trace := trace w @ highlight_styling nodes\<rparr>"
  by (induction nodes arbitrary: w)
    (simp_all add: highlight_node_def setStyle_def emit_def highlight_styling_def)

lemma fold_resetStyles:
  "fold (\<lambda>n. resetStyles n [''backgroundColor'', ''color'']) nodes w =
     w\<lparr>style := fold (\<lambda>n s. s(n := (s n)(''backgroundColor'' := None, ''color'' := None))) nodes (style w),
       trace := trace w @ concat (map (\<lambda>n. [ResetStyle n ''backgroundColor'', ResetStyle n ''color'']) nodes)\<rparr>"
  by (induction nodes arbitrary: w)
    (simp_all add: resetStyles_def resetStyle_def emit_def)

lemma fold_style_apply:
  "fold (\<lambda>n s. s(n := (s n)(p \<mapsto> a, q \<mapsto> b))) nodes s0 m =
     (if m \<in> set nodes then (s0 m)(p \<mapsto> a, q \<mapsto> b) else s0 m)"
  by (induction nodes arbitrary: s0) auto

lemma fold_clear_apply:
  "fold (\<lambda>n s. s(n := (s n)(p := None, q := None))) nodes s0 m =
     (if m \<in> set nodes then (s0 m)(p := None, q := None) else s0 m)"
  by (induction nodes arbitrary: s0) auto

lemma fold_clear_idem:
  "fold (\<lambda>n s. s(n := (s n)(p := None, q := None))) nodes
     (fold (\<lambda>n s. s(n := (s n)(p := None, q := None))) nodes s0) =
   fold (\<lambda>n s. s(n := (s n)(p := None, q := None))) nodes s0"
  by (rule ext) (simp add: fold_clear_apply)

lemma filter_highlight_styling [simp]:
  "filter is_found (highlight_styling nodes) = []"
  "filter is_setScrollTop (highlight_styling nodes) = []"
  "filter is_animateScrollIntoView (highlight_styling nodes) = []"
  by (induction nodes) (simp_all add: highlight_styling_def)

lemma animateScrollToTop_eq:
  "animateScrollToTop y w =
     w\<lparr>pending := pending w @ [next_element w],
       style := (style w)(next_element w := (style w (next_element w))
                  (''position'' \<mapsto> StyleStr ''absolute'', ''top'' \<mapsto> StylePx \<lfloor>y\<rfloor>,
                   ''bottom'' \<mapsto> StyleStr ''0'', ''left'' \<mapsto> StyleStr ''0'',
                   ''right'' \<mapsto> StyleStr ''0'', ''pointer-events'' \<mapsto> StyleStr ''none'')),
       body := removeAll (next_element w) (body w) @ [next_element w],
       next_element := Suc (next_element w),
       trace := trace w @ scroll_animation_start y (next_element w)\<rparr>"
  by (simp add: animateScrollToTop_def createElement_def setStyles_def setStyle_def emit_def
      appendChild_def sendHighlightState_def scroll_animation_start_def state_message_def
      HIGHLIGHT_STATE_def)

lemma animateScrollToTop_then_eq:
  "animateScrollToTop_then m w =
     w\<lparr>body := removeAll m (body w),
       trace := trace w @ [state_message ''shown'',
                           if m \<in> set (body w) then RemoveChild m else Uncaught NotFoundError]\<rparr>"
  by (simp add: animateScrollToTop_then_def removeChild_def sendHighlightState_def emit_def
      state_message_def HIGHLIGHT_STATE_def)

lemma dismissHighlight_eq:
  "dismissHighlight w =
     w\<lparr>style := (case highlightedNodes w of None \<Rightarrow> style w
                  | Some nodes \<Rightarrow>
                      fold (\<lambda>n s. s(n := (s n)(''backgroundColor'' := None, ''color'' := None))) nodes (style w)),
       trace := trace w @ (case highlightedNodes w of None \<Rightarrow> []
                  | Some nodes \<Rightarrow>
                      concat (map (\<lambda>n. [ResetStyle n ''backgroundColor'', ResetStyle n ''color'']) nodes))\<rparr>"
  by (simp add: dismissHighlight_def fold_resetStyles split: option.splits)

lemma calcTopToCenterHighlightedNodes_cong:
  "highlightedNodes w = highlightedNodes w' \<Longrightarrow>
   calcTopToCenterHighlightedNodes e w = calcTopToCenterHighlightedNodes e w'"
  by (simp add: calcTopToCenterHighlightedNodes_def)

lemma findHighlightedNodes_found:
  assumes "findSentences e (sentences info) = Some r" "markTextRangeList e r = Some nodes" "nodes \<noteq> []"
  shows "findHighlightedNodes e info w = w\<lparr>highlightedNodes := Some nodes\<rparr>"
  using assms by (simp add: findHighlightedNodes_def)

lemma findHighlightedNodes_not_found:
  assumes "findSentences e (sentences info) = None \<or>
           (\<exists>r. findSentences e (sentences info) = Some r \<and>
                (markTextRangeList e r = None \<or> markTextRangeList e r = Some []))"
  shows "findHighlightedNodes e info w = w"
  using assms by (auto simp: findHighlightedNodes_def)

text \<open>The whole trace of an initialization that finds nodes.\<close>

lemma new_HighlightHandler_found_trace:
  assumes "findSentences e (sentences info) = Some r" "markTextRangeList e r = Some nodes" "nodes \<noteq> []"
  shows "trace (new_HighlightHandler e info doc) =
           trace doc @ found_message (calcTopToCenterHighlightedNodes e (doc\<lparr>highlightedNodes := Some nodes\<rparr>))
             # highlight_styling nodes
             @ (if getVisibilityState e = ''visible''
                then scroll_animation_start
                       (calcTopToCenterHighlightedNodes e (doc\<lparr>highlightedNodes := Some nodes\<rparr>))
                       (next_element doc)
                else (if calcTopToCenterHighlightedNodes e (doc\<lparr>highlightedNodes := Some nodes\<rparr>) > 1000
                      then [SetScrollTop (calcTopToCenterHighlightedNodes e (doc\<lparr>highlightedNodes := Some nodes\<rparr>) - 1000)]
                      else []) @ [OnVisibilityChanged])
             @ [ListenOnce ''click'']"
proof -
  let ?w = "doc\<lparr>highlightedNodes := None, called := False, visibilityHandler := False,
            clickListener := False, dismissHandler := False\<rparr>"
  have c: "calcTopToCenterHighlightedNodes e (?w\<lparr>highlightedNodes := Some nodes\<rparr>)
         = calcTopToCenterHighlightedNodes e (doc\<lparr>highlightedNodes := Some nodes\<rparr>)"
    by (rule calcTopToCenterHighlightedNodes_cong) simp
  show ?thesis
    unfolding new_HighlightHandler_def initHighlight_def findHighlightedNodes_found [OF assms]
    using c
    by (simp add: Let_def fold_highlight_node animateScrollToTop_eq sendHighlightState_def
        emit_def setScrollTop_def found_message_def HIGHLIGHT_STATE_def
        SCROLL_ANIMATION_HEIGHT_LIMIT_def)
qed

lemma new_HighlightHandler_found_style:
  assumes "findSentences e (sentences info) = Some r" "markTextRangeList e r = Some nodes" "nodes \<noteq> []"
    and "n \<in> set nodes"
  shows "style (new_HighlightHandler e info doc) n ''backgroundColor'' = Some (StyleStr ''#ff0'')"
    and "style (new_HighlightHandler e info doc) n ''color'' = Some (StyleStr ''#333'')"
  unfolding new_HighlightHandler_def initHighlight_def findHighlightedNodes_found [OF assms(1-3)]
  using assms(4)
  by (auto simp: Let_def fold_highlight_node animateScrollToTop_eq sendHighlightState_def
        emit_def setScrollTop_def fold_style_apply)

lemma new_HighlightHandler_found_fields:
  assumes "findSentences e (sentences info) = Some r" "markTextRangeList e r = Some nodes" "nodes \<noteq> []"
  shows "highlightedNodes (new_HighlightHandler e info doc) = Some nodes"
    and "called (new_HighlightHandler e info doc) = False"
    and "visibilityHandler (new_HighlightHandler e info doc) = (getVisibilityState e \<noteq> ''visible'')"
    and "scrollTop (new_HighlightHandler e info doc) =
          (if getVisibilityState e \<noteq> ''visible'' \<and>
              calcTopToCenterHighlightedNodes e (doc\<lparr>highlightedNodes := Some nodes\<rparr>) > 1000
           then calcTopToCenterHighlightedNodes e (doc\<lparr>highlightedNodes := Some nodes\<rparr>) - 1000
           else scrollTop doc)"
proof -
  let ?w = "doc\<lparr>highlightedNodes := None, called := False, visibilityHandler := False,
            clickListener := False, dismissHandler := False\<rparr>"
  have c: "calcTopToCenterHighlightedNodes e (?w\<lparr>highlightedNodes := Some nodes\<rparr>)
         = calcTopToCenterHighlightedNodes e (doc\<lparr>highlightedNodes := Some nodes\<rparr>)"
    by (rule calcTopToCenterHighlightedNodes_cong) simp
  show "highlightedNodes (new_HighlightHandler e info doc) = Some nodes"
    and "called (new_HighlightHandler e info doc) = False"
    and "visibilityHandler (new_HighlightHandler e info doc) = (getVisibilityState e \<noteq> ''visible'')"
    and "scrollTop (new_HighlightHandler e info doc) =
          (if getVisibilityState e \<noteq> ''visible'' \<and>
              calcTopToCenterHighlightedNodes e (doc\<lparr>highlightedNodes := Some nodes\<rparr>) > 1000
           then calcTopToCenterHighlightedNodes e (doc\<lparr>highlightedNodes := Some nodes\<rparr>) - 1000
           else scrollTop doc)"
    unfolding new_HighlightHandler_def initHighlight_def findHighlightedNodes_found [OF assms]
    using c
    by (simp_all add: Let_def fold_highlight_node animateScrollToTop_eq sendHighlightState_def
        emit_def setScrollTop_def SCROLL_ANIMATION_HEIGHT_LIMIT_def)
qed

text \<open>The example host.\<close>

lemma example_env_simps:
  "findSentences (example_env v ns t b) [JStr ''Hello world''] = Some [0]"
  "markTextRangeList (example_env v ns t b) ranges = Some ns"
  "getVisibilityState (example_env v ns t b) = v"
  by (simp_all add: example_env_def)

lemma example_env_offset:
  "highlightedNodes w = Some [n] \<Longrightarrow>
   calcTopToCenterHighlightedNodes (example_env v ns 2000 2020) w = 1610"
  "highlightedNodes w = Some [n] \<Longrightarrow>
   calcTopToCenterHighlightedNodes (example_env v ns 3000 3020) w = 2610"
  by (simp_all add: calcTopToCenterHighlightedNodes_def example_env_def MAX_VALUE_def)

section \<open>Initialization\<close>

text \<open>
  Claim C3. When the locator matches the sentences of the request to a non-empty list
  of nodes, the construction of the handler first sends one \<^verbatim>\<open>found\<close> notification,
  whose \<^verbatim>\<open>scroll\<close> is the offset that \<open>calcTopToCenterHighlightedNodes\<close> computes for
  these nodes, and then sets the background and the foreground colour of every matched
  node, once for each entry of the list and in its order. Nothing that follows is a
  \<^verbatim>\<open>found\<close> notification or a write of these two properties; the nodes are stored,
  and each has the two colours at the end.
\<close>

theorem initHighlight_found:
  assumes "findSentences e (sentences info) = Some r" "markTextRangeList e r = Some nodes" "nodes \<noteq> []"
  shows "\<exists>rest.
           trace (new_HighlightHandler e info doc) =
             trace doc
             @ found_message (calcTopToCenterHighlightedNodes e (doc\<lparr>highlightedNodes := Some nodes\<rparr>))
             # highlight_styling nodes @ rest \<and>
           filter is_found rest = [] \<and> filter is_highlight_styling rest = [] \<and>
           highlightedNodes (new_HighlightHandler e info doc) = Some nodes \<and>
           list_all (\<lambda>n. style (new_HighlightHandler e info doc) n ''backgroundColor'' = Some (StyleStr ''#ff0'') \<and>
                         style (new_HighlightHandler e info doc) n ''color'' = Some (StyleStr ''#333'')) nodes"
proof (intro exI conjI)
  show "trace (new_HighlightHandler e info doc) =
             trace doc
             @ found_message (calcTopToCenterHighlightedNodes e (doc\<lparr>highlightedNodes := Some nodes\<rparr>))
             # highlight_styling nodes
             @ ((if getVisibilityState e = ''visible''
                then scroll_animation_start
                       (calcTopToCenterHighlightedNodes e (doc\<lparr>highlightedNodes := Some nodes\<rparr>))
                       (next_element doc)
                else (if calcTopToCenterHighlightedNodes e (doc\<lparr>highlightedNodes := Some nodes\<rparr>) > 1000
                      then [SetScrollTop (calcTopToCenterHighlightedNodes e (doc\<lparr>highlightedNodes := Some nodes\<rparr>) - 1000)]
                      else []) @ [OnVisibilityChanged])
             @ [ListenOnce ''click''])"
    using new_HighlightHandler_found_trace [OF assms] by simp
  show "filter is_found ((if getVisibilityState e = ''visible''
                then scroll_animation_start
                       (calcTopToCenterHighlightedNodes e (doc\<lparr>highlightedNodes := Some nodes\<rparr>))
                       (next_element doc)
                else (if calcTopToCenterHighlightedNodes e (doc\<lparr>highlightedNodes := Some nodes\<rparr>) > 1000
                      then [SetScrollTop (calcTopToCenterHighlightedNodes e (doc\<lparr>highlightedNodes := Some nodes\<rparr>) - 1000)]
                      else []) @ [OnVisibilityChanged])
             @ [ListenOnce ''click'']) = []"
    by (simp add: scroll_animation_start_def state_message_def)
  show "filter is_highlight_styling ((if getVisibilityState e = ''visible''
                then scroll_animation_start
                       (calcTopToCenterHighlightedNodes e (doc\<lparr>highlightedNodes := Some nodes\<rparr>))
                       (next_element doc)
                else (if calcTopToCenterHighlightedNodes e (doc\<lparr>highlightedNodes := Some nodes\<rparr>) > 1000
                      then [SetScrollTop (calcTopToCenterHighlightedNodes e (doc\<lparr>highlightedNodes := Some nodes\<rparr>) - 1000)]
                      else []) @ [OnVisibilityChanged])
             @ [ListenOnce ''click'']) = []"
    by (simp add: scroll_animation_start_def state_message_def)
  show "highlightedNodes (new_HighlightHandler e info doc) = Some nodes"
    by (rule new_HighlightHandler_found_fields [OF assms])
  show "list_all (\<lambda>n. style (new_HighlightHandler e info doc) n ''backgroundColor'' = Some (StyleStr ''#ff0'') \<and>
                         style (new_HighlightHandler e info doc) n ''color'' = Some (StyleStr ''#333'')) nodes"
    using new_HighlightHandler_found_style [OF assms] by (simp add: list_all_iff)
qed

text \<open>Two nodes from 2000 to 2020, in a visible document: the offset sent is 1610.\<close>

theorem initHighlight_found_witness:
  "\<exists>rest.
     trace (new_HighlightHandler (example_env ''visible'' [0, 1] 2000 2020)
              \<lparr>sentences = [JStr ''Hello world'']\<rparr> example_doc) =
       found_message 1610 # highlight_styling [0, 1] @ rest \<and>
     filter is_found rest = [] \<and> filter is_highlight_styling rest = []"
proof -
  have c: "calcTopToCenterHighlightedNodes (example_env ''visible'' [0, 1] 2000 2020)
             (example_doc\<lparr>highlightedNodes := Some [0, 1]\<rparr>) = 1610"
    by (simp add: calcTopToCenterHighlightedNodes_def example_env_def MAX_VALUE_def)
  show ?thesis
    using initHighlight_found [of "example_env ''visible'' [0, 1] 2000 2020"
      "\<lparr>sentences = [JStr ''Hello world'']\<rparr>" "[0]" "[0, 1]" example_doc]
    unfolding c
    by (simp add: example_env_simps) (auto simp: example_doc_def)
qed

text \<open>
  Claim C4. When the locator finds no ranges, or marks no node for the ranges it found
  (no list, or an empty one), the construction of the handler sends one \<^verbatim>\<open>not_found\<close>
  notification and does nothing else: no style is written, the viewport is not
  scrolled, nothing is registered, and no nodes are stored.
\<close>

theorem initHighlight_not_found:
  assumes "findSentences e (sentences info) = None \<or>
           (\<exists>r. findSentences e (sentences info) = Some r \<and>
                (markTextRangeList e r = None \<or> markTextRangeList e r = Some []))"
  shows "new_HighlightHandler e info doc =
           doc\<lparr>highlightedNodes := None, called := False, visibilityHandler := False,
               clickListener := False, dismissHandler := False,
               trace := trace doc @ [state_message ''not_found'']\<rparr>"
  unfolding new_HighlightHandler_def initHighlight_def findHighlightedNodes_not_found [OF assms]
  by (simp add: sendHighlightState_def emit_def state_message_def HIGHLIGHT_STATE_def)

text \<open>A locator that marks no node, and a sentence that is not in the document.\<close>

theorem initHighlight_not_found_witness:
  "new_HighlightHandler (example_env ''visible'' [] 0 0) \<lparr>sentences = [JStr ''Hello world'']\<rparr>
     example_doc = example_doc\<lparr>trace := [state_message ''not_found'']\<rparr> \<and>
   new_HighlightHandler (example_env ''visible'' [0] 0 20) \<lparr>sentences = [JStr ''Good bye'']\<rparr>
     example_doc = example_doc\<lparr>trace := [state_message ''not_found'']\<rparr>"
  using initHighlight_not_found [of "example_env ''visible'' [] 0 0"
      "\<lparr>sentences = [JStr ''Hello world'']\<rparr>" example_doc]
    initHighlight_not_found [of "example_env ''visible'' [0] 0 20"
      "\<lparr>sentences = [JStr ''Good bye'']\<rparr>" example_doc]
  by (simp add: example_env_def example_doc_def)

text \<open>
  Claim C8. When the construction of the handler finds nodes while the visibility state
  is not \<^verbatim>\<open>visible\<close>, it calls \<^verbatim>\<open>setScrollTop\<close> exactly when the computed offset exceeds
  1000, once and with the offset minus 1000, which is then the scroll offset of the
  viewport; for an offset of at most 1000 the scroll offset is left as it was. No
  scroll animation is requested.
\<close>

theorem initHighlight_preposition:
  assumes "findSentences e (sentences info) = Some r" "markTextRangeList e r = Some nodes" "nodes \<noteq> []"
    and "getVisibilityState e \<noteq> ''visible''"
  shows "filter is_setScrollTop (drop (length (trace doc)) (trace (new_HighlightHandler e info doc))) =
           (if calcTopToCenterHighlightedNodes e (doc\<lparr>highlightedNodes := Some nodes\<rparr>) > 1000
            then [SetScrollTop (calcTopToCenterHighlightedNodes e (doc\<lparr>highlightedNodes := Some nodes\<rparr>) - 1000)]
            else []) \<and>
         filter is_animateScrollIntoView
           (drop (length (trace doc)) (trace (new_HighlightHandler e info doc))) = [] \<and>
         scrollTop (new_HighlightHandler e info doc) =
           (if calcTopToCenterHighlightedNodes e (doc\<lparr>highlightedNodes := Some nodes\<rparr>) > 1000
            then calcTopToCenterHighlightedNodes e (doc\<lparr>highlightedNodes := Some nodes\<rparr>) - 1000
            else scrollTop doc)"
  using assms(4)
  by (simp add: new_HighlightHandler_found_trace [OF assms(1-3)]
      new_HighlightHandler_found_fields [OF assms(1-3)] found_message_def)

text \<open>A hidden document with the node from 2000 to 2020: the viewport is set to 610.\<close>

theorem initHighlight_preposition_witness:
  "filter is_setScrollTop
     (trace (new_HighlightHandler (example_env ''hidden'' [0] 2000 2020)
               \<lparr>sentences = [JStr ''Hello world'']\<rparr> example_doc)) = [SetScrollTop 610] \<and>
   scrollTop (new_HighlightHandler (example_env ''hidden'' [0] 2000 2020)
               \<lparr>sentences = [JStr ''Hello world'']\<rparr> example_doc) = 610"
  using initHighlight_preposition [of "example_env ''hidden'' [0] 2000 2020"
      "\<lparr>sentences = [JStr ''Hello world'']\<rparr>" "[0]" "[0]" example_doc]
  by (simp add: example_env_simps example_env_offset) (simp add: example_doc_def)

section \<open>Dismissal\<close>

text \<open>
  Claim C6. Dismissal with no stored nodes changes nothing. With stored nodes it resets
  the background and the foreground colour of every stored node and keeps the stored
  nodes. Dismissing twice ends in the state that dismissing once ends in (the trace of
  effects apart, which has the resets of both calls).
\<close>

theorem dismissHighlight_idempotent:
  "(highlightedNodes w = None \<longrightarrow> dismissHighlight w = w) \<and>
   (highlightedNodes w = Some nodes \<longrightarrow>
      highlightedNodes (dismissHighlight w) = Some nodes \<and>
      list_all (\<lambda>n. style (dismissHighlight w) n ''backgroundColor'' = None \<and>
                    style (dismissHighlight w) n ''color'' = None) nodes) \<and>
   (dismissHighlight (dismissHighlight w))\<lparr>trace := t\<rparr> = (dismissHighlight w)\<lparr>trace := t\<rparr>"
proof (intro conjI impI)
  assume "highlightedNodes w = None"
  then show "dismissHighlight w = w"
    by (simp add: dismissHighlight_def)
next
  assume "highlightedNodes w = Some nodes"
  then show "highlightedNodes (dismissHighlight w) = Some nodes"
    by (simp add: dismissHighlight_eq)
next
  assume "highlightedNodes w = Some nodes"
  then show "list_all (\<lambda>n. style (dismissHighlight w) n ''backgroundColor'' = None \<and>
                    style (dismissHighlight w) n ''color'' = None) nodes"
    by (simp add: dismissHighlight_eq fold_clear_apply list_all_iff)
next
  show "(dismissHighlight (dismissHighlight w))\<lparr>trace := t\<rparr> = (dismissHighlight w)\<lparr>trace := t\<rparr>"
  proof (cases "highlightedNodes w")
    case None
    then show ?thesis by (simp add: dismissHighlight_def)
  next
    case (Some nodes)
    have "dismissHighlight (dismissHighlight w) =
            (dismissHighlight w)\<lparr>trace := trace (dismissHighlight (dismissHighlight w))\<rparr>"
      using Some by (subst dismissHighlight_eq) (simp add: dismissHighlight_eq fold_clear_idem)
    then have "(dismissHighlight (dismissHighlight w))\<lparr>trace := t\<rparr> =
            (dismissHighlight w)\<lparr>trace := trace (dismissHighlight (dismissHighlight w))\<rparr>\<lparr>trace := t\<rparr>"
      by simp
    then show ?thesis by simp
  qed
qed

text \<open>A handler with no nodes, and one whose nodes 0 and 1 carry the two colours.\<close>

theorem dismissHighlight_idempotent_witness:
  "dismissHighlight example_doc = example_doc \<and>
   highlightedNodes (dismissHighlight (fold highlight_node [0, 1] (example_doc\<lparr>highlightedNodes := Some [0, 1]\<rparr>)))
     = Some [0, 1] \<and>
   style (fold highlight_node [0, 1] (example_doc\<lparr>highlightedNodes := Some [0, 1]\<rparr>)) 1 ''color''
     = Some (StyleStr ''#333'') \<and>
   style (dismissHighlight (fold highlight_node [0, 1] (example_doc\<lparr>highlightedNodes := Some [0, 1]\<rparr>))) 1 ''color''
     = None \<and>
   (dismissHighlight (dismissHighlight (fold highlight_node [0, 1] (example_doc\<lparr>highlightedNodes := Some [0, 1]\<rparr>))))\<lparr>trace := []\<rparr> =
     (dismissHighlight (fold highlight_node [0, 1] (example_doc\<lparr>highlightedNodes := Some [0, 1]\<rparr>)))\<lparr>trace := []\<rparr>"
  using dismissHighlight_idempotent [of example_doc "[]" "[]"]
    dismissHighlight_idempotent [of "fold highlight_node [0, 1] (example_doc\<lparr>highlightedNodes := Some [0, 1]\<rparr>)"
       "[0, 1]" "[]"]
  by (simp add: example_doc_def highlight_node_def setStyle_def emit_def dismissHighlight_eq)

section \<open>The scroll animation and the visibility callback\<close>

lemma step_trace:
  "\<exists>more. trace (step e ev w) = trace w @ more"
  by (cases ev)
    (simp_all add: onVisibilityChanged_callback_def animateScrollToTop_eq
      animateScrollToTop_then_eq dismissHighlight_eq)

lemma run_trace:
  "\<exists>more. trace (run evs w) = trace w @ more"
proof (induction evs arbitrary: w)
  case Nil
  show ?case by simp
next
  case (Cons x evs)
  obtain e ev where x: "x = (e, ev)" by (cases x)
  obtain m1 where m1: "trace (step e ev w) = trace w @ m1"
    using step_trace by blast
  obtain m2 where m2: "trace (run evs (step e ev w)) = trace (step e ev w) @ m2"
    using Cons.IH by blast
  show ?case using x m1 m2 by simp
qed

lemma run_append: "run (evs @ evs') w = run evs' (run evs w)"
  by (induction evs arbitrary: w) auto

text \<open>A marker whose animation is pending stays in the body until its own completion.\<close>

lemma step_marker:
  assumes "m \<in> set (pending w)" "m \<in> set (body w)" "m < next_element w" "ev \<noteq> AnimationFinished m"
  shows "m \<in> set (pending (step e ev w)) \<and> m \<in> set (body (step e ev w)) \<and>
         m < next_element (step e ev w)"
  using assms
  by (cases ev)
    (auto simp: onVisibilityChanged_callback_def animateScrollToTop_eq
      animateScrollToTop_then_eq dismissHighlight_eq)

lemma run_marker:
  assumes "m \<in> set (pending w)" "m \<in> set (body w)" "m < next_element w"
    and "list_all (\<lambda>x. snd x \<noteq> AnimationFinished m) evs"
  shows "m \<in> set (pending (run evs w)) \<and> m \<in> set (body (run evs w)) \<and>
         m < next_element (run evs w)"
  using assms
proof (induction evs arbitrary: w)
  case Nil
  then show ?case by simp
next
  case (Cons x evs)
  obtain e ev where x: "x = (e, ev)" by (cases x)
  have "m \<in> set (pending (step e ev w)) \<and> m \<in> set (body (step e ev w)) \<and>
         m < next_element (step e ev w)"
    using Cons.prems x by (intro step_marker) simp_all
  then show ?case
    using Cons.IH [of "step e ev w"] Cons.prems x by simp
qed

text \<open>
  Claim C7. A run of \<open>animateScrollToTop\<close> creates the marker, gives it the absolute
  position at the offset (rounded down) with bottom, left and right 0 and no pointer
  events, appends it to the body, sends \<^verbatim>\<open>auto_scroll\<close> and requests the animated scroll
  to the marker, in this order; the marker is then in the body. Whatever callbacks run
  before the animation of this marker completes, its completion sends \<^verbatim>\<open>shown\<close> and
  removes the marker: the trace has the start, then the effects of the callbacks
  between, then \<^verbatim>\<open>shown\<close> and the removal, and the body has the marker no more.
\<close>

theorem animateScrollToTop_sequence:
  assumes "list_all (\<lambda>x. snd x \<noteq> AnimationFinished (next_element w)) evs"
  shows "trace (animateScrollToTop y w) = trace w @ scroll_animation_start y (next_element w) \<and>
         next_element w \<in> set (body (animateScrollToTop y w)) \<and>
         (\<exists>between.
            trace (run (evs @ [(e, AnimationFinished (next_element w))]) (animateScrollToTop y w)) =
              trace w @ scroll_animation_start y (next_element w) @ between
              @ scroll_animation_completion (next_element w)) \<and>
         next_element w \<notin>
           set (body (run (evs @ [(e, AnimationFinished (next_element w))]) (animateScrollToTop y w)))"
proof -
  let ?m = "next_element w"
  let ?w1 = "animateScrollToTop y w"
  let ?w2 = "run evs ?w1"
  have t1: "trace ?w1 = trace w @ scroll_animation_start y ?m"
    and b1: "?m \<in> set (body ?w1)" and p1: "?m \<in> set (pending ?w1)" and n1: "?m < next_element ?w1"
    by (simp_all add: animateScrollToTop_eq)
  obtain between where t2: "trace ?w2 = trace ?w1 @ between"
    using run_trace by blast
  have inv: "?m \<in> set (pending ?w2) \<and> ?m \<in> set (body ?w2) \<and> ?m < next_element ?w2"
    using p1 b1 n1 assms by (rule run_marker)
  have fin: "run (evs @ [(e, AnimationFinished ?m)]) ?w1 =
               animateScrollToTop_then ?m (?w2\<lparr>pending := removeAll ?m (pending ?w2)\<rparr>)"
    using inv by (simp add: run_append)
  have t3: "trace (run (evs @ [(e, AnimationFinished ?m)]) ?w1) =
              trace w @ scroll_animation_start y ?m @ between @ scroll_animation_completion ?m"
    unfolding fin using inv t1 t2
    by (simp add: animateScrollToTop_then_eq scroll_animation_completion_def)
  have b3: "?m \<notin> set (body (run (evs @ [(e, AnimationFinished ?m)]) ?w1))"
    unfolding fin by (simp add: animateScrollToTop_then_eq)
  show ?thesis using t1 b1 t3 b3 by blast
qed

text \<open>The animation to 1610 in the example document, with a click before it completes.\<close>

theorem animateScrollToTop_sequence_witness:
  "trace (animateScrollToTop 1610 example_doc) = scroll_animation_start 1610 5 \<and>
   (\<exists>between.
     trace (run ([(example_env ''visible'' [0] 2000 2020, Click)]
                 @ [(example_env ''visible'' [0] 2000 2020, AnimationFinished 5)])
             (animateScrollToTop 1610 example_doc)) =
       scroll_animation_start 1610 5 @ between @ scroll_animation_completion 5) \<and>
   5 \<notin> set (body (run ([(example_env ''visible'' [0] 2000 2020, Click)]
                 @ [(example_env ''visible'' [0] 2000 2020, AnimationFinished 5)])
             (animateScrollToTop 1610 example_doc)))"
  using animateScrollToTop_sequence [of example_doc "[(example_env ''visible'' [0] 2000 2020, Click)]"
      1610 "example_env ''visible'' [0] 2000 2020"]
  by (simp add: example_doc_def)

lemma visibility_events_called:
  assumes "called w"
  shows "run (map (\<lambda>e. (e, VisibilityChanged)) es) w = w"
  using assms by (induction es) (simp_all add: onVisibilityChanged_callback_def)

lemma visibility_events_first:
  assumes "visibilityHandler w" "\<not> called w"
  shows "run (map (\<lambda>e. (e, VisibilityChanged)) es) w =
           (case find (\<lambda>e. getVisibilityState e = ''visible'') es of
              None \<Rightarrow> w
            | Some e \<Rightarrow> (animateScrollToTop (calcTopToCenterHighlightedNodes e w) w)\<lparr>called := True\<rparr>)"
  using assms
proof (induction es)
  case Nil
  show ?case by simp
next
  case (Cons e es)
  show ?case
  proof (cases "getVisibilityState e = ''visible''")
    case True
    then show ?thesis
      using Cons.prems
      by (simp add: onVisibilityChanged_callback_def visibility_events_called)
  next
    case False
    then show ?thesis
      using Cons by (simp add: onVisibilityChanged_callback_def)
  qed
qed

text \<open>
  Over any callback, the number of requested animations goes up by one exactly when
  \<^verbatim>\<open>called\<close> goes from false to true.
\<close>

lemma step_animations:
  "length (filter is_animateScrollIntoView (trace (step e ev w))) + (if called (step e ev w) then 0 else 1) =
   length (filter is_animateScrollIntoView (trace w)) + (if called w then 0 else 1)"
  by (cases ev)
    (simp_all add: onVisibilityChanged_callback_def animateScrollToTop_eq
      animateScrollToTop_then_eq dismissHighlight_eq scroll_animation_start_def state_message_def
      split: option.splits)

lemma run_animations:
  "length (filter is_animateScrollIntoView (trace (run evs w))) + (if called (run evs w) then 0 else 1) =
   length (filter is_animateScrollIntoView (trace w)) + (if called w then 0 else 1)"
proof (induction evs arbitrary: w)
  case Nil
  show ?case by simp
next
  case (Cons x evs)
  obtain e ev where x: "x = (e, ev)" by (cases x)
  show ?case
    using Cons.IH [of "step e ev w"] step_animations [of e ev w] x by simp
qed

text \<open>
  Claim C9. Let the handler be constructed, with nodes found, while the visibility state
  is not \<^verbatim>\<open>visible\<close>. Then any sequence of visibility changes leaves the handler as it
  was when none of them comes with the state \<^verbatim>\<open>visible\<close>, and otherwise has the effect
  of one run of the scroll animation, to the offset computed from the host as it is at
  the first change that comes with \<^verbatim>\<open>visible\<close>: the changes before it and all the changes
  after it do nothing. And over any sequence of callbacks of any kind, at most one scroll
  animation is requested.
\<close>

theorem visibility_callback_once:
  assumes "findSentences e0 (sentences info) = Some r" "markTextRangeList e0 r = Some nodes" "nodes \<noteq> []"
    and "getVisibilityState e0 \<noteq> ''visible''"
  shows "run (map (\<lambda>e. (e, VisibilityChanged)) es) (new_HighlightHandler e0 info doc) =
           (case find (\<lambda>e. getVisibilityState e = ''visible'') es of
              None \<Rightarrow> new_HighlightHandler e0 info doc
            | Some e \<Rightarrow>
                (animateScrollToTop
                   (calcTopToCenterHighlightedNodes e (new_HighlightHandler e0 info doc))
                   (new_HighlightHandler e0 info doc))\<lparr>called := True\<rparr>) \<and>
         length (filter is_animateScrollIntoView
                  (drop (length (trace doc)) (trace (run evs (new_HighlightHandler e0 info doc))))) \<le> 1"
proof
  show "run (map (\<lambda>e. (e, VisibilityChanged)) es) (new_HighlightHandler e0 info doc) =
           (case find (\<lambda>e. getVisibilityState e = ''visible'') es of
              None \<Rightarrow> new_HighlightHandler e0 info doc
            | Some e \<Rightarrow>
                (animateScrollToTop
                   (calcTopToCenterHighlightedNodes e (new_HighlightHandler e0 info doc))
                   (new_HighlightHandler e0 info doc))\<lparr>called := True\<rparr>)"
    using assms(4) new_HighlightHandler_found_fields [OF assms(1-3), of doc]
    by (intro visibility_events_first) simp_all
next
  let ?w0 = "new_HighlightHandler e0 info doc"
  obtain new where new: "trace ?w0 = trace doc @ new" "filter is_animateScrollIntoView new = []"
    using new_HighlightHandler_found_trace [OF assms(1-3), of doc] assms(4)
    by (simp add: found_message_def)
  obtain more where more: "trace (run evs ?w0) = trace ?w0 @ more"
    using run_trace by blast
  have "length (filter is_animateScrollIntoView (trace (run evs ?w0))) \<le>
          length (filter is_animateScrollIntoView (trace ?w0)) + 1"
    using run_animations [of evs ?w0] by (simp split: if_splits)
  then show "length (filter is_animateScrollIntoView
                  (drop (length (trace doc)) (trace (run evs ?w0)))) \<le> 1"
    using new more by simp
qed

text \<open>
  Three visibility changes after a construction in a hidden document: the document is
  still hidden, then visible with the node from 3000 to 3020, then visible with the node
  back at 2000 to 2020. The animation runs once, to 2610.
\<close>

theorem visibility_callback_once_witness:
  "run (map (\<lambda>e. (e, VisibilityChanged))
          [example_env ''hidden'' [0] 2000 2020, example_env ''visible'' [0] 3000 3020,
           example_env ''visible'' [0] 2000 2020])
     (new_HighlightHandler (example_env ''hidden'' [0] 2000 2020)
        \<lparr>sentences = [JStr ''Hello world'']\<rparr> example_doc) =
   (animateScrollToTop 2610
      (new_HighlightHandler (example_env ''hidden'' [0] 2000 2020)
        \<lparr>sentences = [JStr ''Hello world'']\<rparr> example_doc))\<lparr>called := True\<rparr>"
proof -
  have h: "highlightedNodes (new_HighlightHandler (example_env ''hidden'' [0] 2000 2020)
        \<lparr>sentences = [JStr ''Hello world'']\<rparr> example_doc) = Some [0]"
    by (rule new_HighlightHandler_found_fields [of _ _ "[0]"]) (simp_all add: example_env_simps)
  show ?thesis
    using visibility_callback_once [of "example_env ''hidden'' [0] 2000 2020"
      "\<lparr>sentences = [JStr ''Hello world'']\<rparr>" "[0]" "[0]"
      "[example_env ''hidden'' [0] 2000 2020, example_env ''visible'' [0] 3000 3020,
           example_env ''visible'' [0] 2000 2020]" example_doc "[]"]
    by (simp add: example_env_simps example_env_offset [OF h])
qed

end
